theory Spec2Isabelle
  imports Complex_Main
begin

section \<open>The ChronoRift battle engine (app/utils/battle_engine.py)\<close>

text \<open>
  A shallow embedding of the turn-based battle engine. Python's unbounded integers are
  \<open>int\<close>. Python's floats are IEEE 754 double precision numbers: a float is modelled by
  the type \<open>py_float\<close> below, and every float operation is the exact operation on the
  reals followed by rounding to the nearest double, ties to even, with overflow to an
  infinity. The draws of the global random generator are arguments of the functions that
  make them. Mutation of a combatant is explicit state passing, and every \<open>raise\<close> is a
  value \<open>Inl e\<close> of the result.
\<close>

subsection \<open>Python helpers\<close>

datatype py_error = IndexError | KeyError | ValueError | TypeError | AttributeError
  | OverflowError | ZeroDivisionError

text \<open>Sequencing: the first exception raised ends the evaluation.\<close>

definition py_bind :: "py_error + 'a \<Rightarrow> ('a \<Rightarrow> py_error + 'b) \<Rightarrow> py_error + 'b" where
  "py_bind m f = (case m of Inl e \<Rightarrow> Inl e | Inr v \<Rightarrow> f v)"

text \<open>\<open>xs[0]\<close> raises IndexError on the empty list.\<close>

definition first :: "'a list \<Rightarrow> py_error + 'a" where
  "first xs = (case xs of [] \<Rightarrow> Inl IndexError | x # _ \<Rightarrow> Inr x)"

text \<open>\<open>d[k]\<close> raises KeyError on a missing key; \<open>d.get(k, v)\<close> defaults.\<close>

definition lookup :: "('k \<rightharpoonup> 'v) \<Rightarrow> 'k \<Rightarrow> py_error + 'v" where
  "lookup d k = (case d k of None \<Rightarrow> Inl KeyError | Some v \<Rightarrow> Inr v)"

definition get_default :: "('k \<rightharpoonup> 'v) \<Rightarrow> 'k \<Rightarrow> 'v \<Rightarrow> 'v" where
  "get_default d k v = (case d k of None \<Rightarrow> v | Some w \<Rightarrow> w)"

text \<open>\<open>str(n)\<close> for an integer: decimal digits, with a minus sign when negative.\<close>

definition digit_char :: "nat \<Rightarrow> char" where
  "digit_char n = ''0123456789'' ! n"

function str_nat :: "nat \<Rightarrow> string" where
  "str_nat n = (if n < 10 then [digit_char n] else str_nat (n div 10) @ [digit_char (n mod 10)])"
  by pat_completeness auto
termination
  by (relation "measure id") auto

declare str_nat.simps [simp del]

definition str_int :: "int \<Rightarrow> string" where
  "str_int i = (if i < 0 then CHR ''-'' # str_nat (nat (- i)) else str_nat (nat i))"

text \<open>
  \<open>s.split(':')\<close>: the pieces between the colons, always at least one piece.
\<close>

fun split_colon :: "string \<Rightarrow> string list" where
  "split_colon [] = [[]]"
| "split_colon (c # cs) =
     (if c = CHR '':'' then [] # split_colon cs
      else (case split_colon cs of [] \<Rightarrow> [[c]] | p # ps \<Rightarrow> (c # p) # ps))"

text \<open>
  \<open>int(s)\<close> on a string: surrounding whitespace is stripped (on an ASCII string: tab,
  line feed, vertical tab, form feed, carriage return and space), one sign is allowed,
  then decimal digits, single underscores allowed between digits; anything else raises
  ValueError. Characters are bytes here, so only the ASCII digits of Python's rule are
  covered; the length limit that recent Python versions put on such literals (4300
  digits) is left out.
\<close>

definition is_space :: "char \<Rightarrow> bool" where
  "is_space c = (c \<in> set [CHR 0x09, CHR 0x0A, CHR 0x0B, CHR 0x0C, CHR 0x0D, CHR 0x20])"

definition digit_val :: "char \<rightharpoonup> nat" where
  "digit_val = map_of [(CHR ''0'', 0), (CHR ''1'', 1), (CHR ''2'', 2), (CHR ''3'', 3),
     (CHR ''4'', 4), (CHR ''5'', 5), (CHR ''6'', 6), (CHR ''7'', 7), (CHR ''8'', 8),
     (CHR ''9'', 9)]"

definition strip :: "string \<Rightarrow> string" where
  "strip s = rev (dropWhile is_space (rev (dropWhile is_space s)))"

text \<open>
  The digits of a literal, most significant first, with an accumulator; \<open>prev_digit\<close>
  says whether the character before was a digit (an underscore must follow a digit and
  be followed by one).
\<close>

fun parse_digits :: "bool \<Rightarrow> nat \<Rightarrow> string \<Rightarrow> nat option" where
  "parse_digits prev_digit acc [] = (if prev_digit then Some acc else None)"
| "parse_digits prev_digit acc (c # cs) =
     (case digit_val c of
        Some d \<Rightarrow> parse_digits True (10 * acc + d) cs
      | None \<Rightarrow> (if c = CHR ''_'' \<and> prev_digit then parse_digits False acc cs else None))"

definition int_of_str :: "string \<Rightarrow> py_error + int" where
  "int_of_str s =
     (let t = strip s;
          (neg, body) = (case t of
                           c # cs \<Rightarrow> (if c = CHR ''-'' then (True, cs)
                                      else if c = CHR ''+'' then (False, cs)
                                      else (False, t))
                         | [] \<Rightarrow> (False, t))
      in case parse_digits False 0 body of
           None \<Rightarrow> Inl ValueError
         | Some n \<Rightarrow> Inr (if neg then - int n else int n))"

subsection \<open>Python floats\<close>

text \<open>
  A float is a finite double, given by its value, or one of the two infinities, or a NaN.
  The sign of a zero is not kept: no function of the engine can tell \<open>-0.0\<close> from \<open>0.0\<close>
  (they compare equal, \<open>int\<close> gives 0 for both, and Python raises on a division by
  either).
\<close>

datatype py_float = Fin real | PInf | NInf | NaN

text \<open>
  Rounding a real to the nearest double. \<open>expo x\<close> is the exponent \<open>e\<close> of the binade of
  \<open>x\<close>, \<open>2^e \<le> |x| < 2^(e+1)\<close>, read off the bit length of an integer (Python's
  \<open>int.bit_length\<close>). A double has 53 significant bits, so its last place is worth
  \<open>2^(e-52)\<close>; below \<open>2^(-1022)\<close> the doubles are the multiples of \<open>2^(-1074)\<close>. The real is
  rounded to a multiple of the last place, halfway cases to the even multiple, and a
  result that reaches \<open>2^1024\<close> is an infinity.
\<close>

definition pow2 :: "int \<Rightarrow> real" where
  "pow2 k = (if 0 \<le> k then 2 ^ nat k else 1 / 2 ^ nat (- k))"

function bit_length :: "nat \<Rightarrow> nat" where
  "bit_length n = (if n = 0 then 0 else Suc (bit_length (n div 2)))"
  by pat_completeness auto
termination
  by (relation "measure id") auto

declare bit_length.simps [simp del]

definition expo :: "real \<Rightarrow> int" where
  "expo x = (let a = \<bar>x\<bar> in
             if 1 \<le> a then int (bit_length (nat \<lfloor>a\<rfloor>)) - 1
             else - int (bit_length (nat (\<lceil>1 / a\<rceil> - 1))))"

definition round_even :: "real \<Rightarrow> int" where
  "round_even x = (let f = \<lfloor>x\<rfloor>; d = x - of_int f in
                   if d < 1 / 2 then f else if 1 / 2 < d then f + 1
                   else if even f then f else f + 1)"

definition fl :: "real \<Rightarrow> py_float" where
  "fl x = (if x = 0 then Fin 0 else
           (let e = max (expo x) (- 1022);
                m = round_even (x / pow2 (e - 52))
            in if 1023 < e \<or> (e = 1023 \<and> 2 ^ 53 \<le> \<bar>m\<bar>)
               then (if 0 < x then PInf else NInf)
               else Fin (of_int m * pow2 (e - 52))))"

text \<open>The sign of a float that is not a NaN.\<close>

fun sign_of :: "py_float \<Rightarrow> int" where
  "sign_of (Fin x) = (if 0 < x then 1 else if x < 0 then - 1 else 0)"
| "sign_of PInf = 1"
| "sign_of NInf = - 1"
| "sign_of NaN = 0"

definition inf_of_sign :: "int \<Rightarrow> py_float" where
  "inf_of_sign s = (if s = 0 then NaN else if 0 < s then PInf else NInf)"

text \<open>
  The float operations \<open>*\<close>, \<open>+\<close>, \<open>-\<close> and \<open>/\<close>. They do not raise on overflow; \<open>/\<close>
  raises on a zero divisor.
\<close>

fun dmul :: "py_float \<Rightarrow> py_float \<Rightarrow> py_float" where
  "dmul (Fin x) (Fin y) = fl (x * y)"
| "dmul NaN b = NaN"
| "dmul a NaN = NaN"
| "dmul a b = inf_of_sign (sign_of a * sign_of b)"

fun dadd :: "py_float \<Rightarrow> py_float \<Rightarrow> py_float" where
  "dadd (Fin x) (Fin y) = fl (x + y)"
| "dadd NaN b = NaN"
| "dadd a NaN = NaN"
| "dadd PInf NInf = NaN"
| "dadd NInf PInf = NaN"
| "dadd PInf b = PInf"
| "dadd NInf b = NInf"
| "dadd a b = b"

fun dneg :: "py_float \<Rightarrow> py_float" where
  "dneg (Fin x) = Fin (- x)"
| "dneg PInf = NInf"
| "dneg NInf = PInf"
| "dneg NaN = NaN"

definition dsub :: "py_float \<Rightarrow> py_float \<Rightarrow> py_float" where
  "dsub a b = dadd a (dneg b)"

fun ddiv :: "py_float \<Rightarrow> py_float \<Rightarrow> py_error + py_float" where
  "ddiv a (Fin y) =
     (if y = 0 then Inl ZeroDivisionError
      else (case a of
              Fin x \<Rightarrow> Inr (fl (x / y))
            | NaN \<Rightarrow> Inr NaN
            | _ \<Rightarrow> Inr (inf_of_sign (sign_of a * sign_of (Fin y)))))"
| "ddiv NaN b = Inr NaN"
| "ddiv a NaN = Inr NaN"
| "ddiv (Fin x) b = Inr (Fin 0)"
| "ddiv a b = Inr NaN"

text \<open>
  \<open>a < b\<close> on floats (and \<open>b > a\<close>): false when either is a NaN. \<open>max(a, b)\<close> is Python's
  built-in on two arguments: \<open>b\<close> when \<open>b > a\<close>, else \<open>a\<close>.
\<close>

fun dlt :: "py_float \<Rightarrow> py_float \<Rightarrow> bool" where
  "dlt (Fin x) (Fin y) = (x < y)"
| "dlt NaN b = False"
| "dlt a NaN = False"
| "dlt a NInf = False"
| "dlt PInf b = False"
| "dlt a b = True"

definition py_max :: "py_float \<Rightarrow> py_float \<Rightarrow> py_float" where
  "py_max a b = (if dlt a b then b else a)"

text \<open>
  The conversion of an integer to a float, which every mixed operation applies to its
  integer operand, raises OverflowError when the integer rounds beyond the largest
  double. \<open>a / b\<close> on two integers is the correctly rounded quotient; it raises
  ZeroDivisionError, or OverflowError when the quotient is too large.
\<close>

definition float_of_int :: "int \<Rightarrow> py_error + py_float" where
  "float_of_int n = (case fl (of_int n) of Fin v \<Rightarrow> Inr (Fin v) | _ \<Rightarrow> Inl OverflowError)"

definition int_truediv :: "int \<Rightarrow> int \<Rightarrow> py_error + py_float" where
  "int_truediv a b =
     (if b = 0 then Inl ZeroDivisionError
      else (case fl (of_int a / of_int b) of
              Fin v \<Rightarrow> Inr (Fin v)
            | _ \<Rightarrow> Inl OverflowError))"

definition int_times_float :: "int \<Rightarrow> py_float \<Rightarrow> py_error + py_float" where
  "int_times_float n x = py_bind (float_of_int n) (\<lambda>a. Inr (dmul a x))"

definition float_times_int :: "py_float \<Rightarrow> int \<Rightarrow> py_error + py_float" where
  "float_times_int x n = py_bind (float_of_int n) (\<lambda>a. Inr (dmul x a))"

definition float_plus_int :: "py_float \<Rightarrow> int \<Rightarrow> py_error + py_float" where
  "float_plus_int x n = py_bind (float_of_int n) (\<lambda>a. Inr (dadd x a))"

definition float_div_int :: "py_float \<Rightarrow> int \<Rightarrow> py_error + py_float" where
  "float_div_int x n = py_bind (float_of_int n) (\<lambda>a. ddiv x a)"

definition int_div_float :: "int \<Rightarrow> py_float \<Rightarrow> py_error + py_float" where
  "int_div_float n x = py_bind (float_of_int n) (\<lambda>a. ddiv a x)"

text \<open>
  \<open>int(x)\<close> on a float truncates toward zero; it raises OverflowError on an infinity and
  ValueError on a NaN. \<open>round(x)\<close> rounds to the nearest integer, ties to even, with the
  same exceptions.
\<close>

fun py_int :: "py_float \<Rightarrow> py_error + int" where
  "py_int (Fin x) = Inr (if 0 \<le> x then \<lfloor>x\<rfloor> else \<lceil>x\<rceil>)"
| "py_int NaN = Inl ValueError"
| "py_int a = Inl OverflowError"


subsection \<open>Elements and the type effectiveness matrix\<close>

datatype EchoElement = FIRE | WATER | WIND | EARTH | LIGHT | DARK | NEUTRAL

text \<open>A float literal of the source, \<open>0.5\<close> say, is the double nearest to it: \<open>fl 0.5\<close>.\<close>

definition TYPE_EFFECTIVENESS :: "EchoElement \<rightharpoonup> (EchoElement \<rightharpoonup> py_float)" where
  "TYPE_EFFECTIVENESS = map_of [
     (FIRE, map_of [(FIRE, fl 0.5), (WATER, fl 0.5), (WIND, fl 2.0), (EARTH, fl 2.0),
                    (LIGHT, fl 1.0), (DARK, fl 1.0), (NEUTRAL, fl 1.0)]),
     (WATER, map_of [(FIRE, fl 2.0), (WATER, fl 0.5), (WIND, fl 0.5), (EARTH, fl 2.0),
                     (LIGHT, fl 1.0), (DARK, fl 1.0), (NEUTRAL, fl 1.0)]),
     (WIND, map_of [(FIRE, fl 0.5), (WATER, fl 2.0), (WIND, fl 0.5), (EARTH, fl 0.5),
                    (LIGHT, fl 1.0), (DARK, fl 1.0), (NEUTRAL, fl 1.0)]),
     (EARTH, map_of [(FIRE, fl 0.5), (WATER, fl 0.5), (WIND, fl 2.0), (EARTH, fl 0.5),
                     (LIGHT, fl 1.0), (DARK, fl 1.0), (NEUTRAL, fl 1.0)]),
     (LIGHT, map_of [(FIRE, fl 1.0), (WATER, fl 1.0), (WIND, fl 1.0), (EARTH, fl 1.0),
                     (LIGHT, fl 0.5), (DARK, fl 2.0), (NEUTRAL, fl 1.0)]),
     (DARK, map_of [(FIRE, fl 1.0), (WATER, fl 1.0), (WIND, fl 1.0), (EARTH, fl 1.0),
                    (LIGHT, fl 2.0), (DARK, fl 0.5), (NEUTRAL, fl 1.0)]),
     (NEUTRAL, map_of [(FIRE, fl 1.0), (WATER, fl 1.0), (WIND, fl 1.0), (EARTH, fl 1.0),
                       (LIGHT, fl 1.0), (DARK, fl 1.0), (NEUTRAL, fl 1.0)])]"

text \<open>
  The lookup as both call sites write it:
  \<open>TYPE_EFFECTIVENESS.get(attacker.element, {}).get(defender.element, 1.0)\<close>.
\<close>

definition effectiveness :: "EchoElement \<Rightarrow> EchoElement \<Rightarrow> py_float" where
  "effectiveness a d = get_default (get_default TYPE_EFFECTIVENESS a Map.empty) d (fl 1.0)"

subsection \<open>The data model\<close>

text \<open>
  \<open>EchoStats\<close> and \<open>Echo\<close> come from app/utils/echo_generator.py. The field \<open>def_\<close> is
  written \<open>defense\<close>. Of an Echo the engine reads the name, the element, the level, the
  two stat blocks and the moves; the other fields (id, echo_type, rarity, ability,
  gender, nature, experience, captured_at, is_shiny) are never read by it and are left
  out.
\<close>

record EchoStats =
  hp :: int
  atk :: int
  defense :: int
  sp_atk :: int
  sp_def :: int
  spd :: int

text \<open>
  A move is a dict read with \<open>move.get(key, default)\<close>: a missing key is \<open>None\<close>. The keys
  are those the engine reads: name, type, power, accuracy, element, effect. Power and
  accuracy are integers, as in the move pool of the generator.
\<close>

record Move =
  m_name :: "string option"
  m_type :: "string option"
  m_power :: "int option"
  m_accuracy :: "int option"
  m_element :: "EchoElement option"
  m_effect :: "string option"

record Echo =
  name :: string
  element :: EchoElement
  level :: int
  base_stats :: EchoStats
  current_stats :: EchoStats
  moves :: "Move list"

record DamageResult =
  base_damage :: int
  type_effectiveness :: py_float
  critical_hit :: bool
  final_damage :: int
  move_accuracy :: py_float
  hit :: bool

text \<open>
  \<open>CombatantState\<close>, without \<open>last_action\<close> (no engine function reads or writes it).
  The stat modifiers are a dict from stat names to multipliers.
\<close>

record CombatantState =
  echo_id :: string
  echo :: Echo
  current_hp :: int
  status_effects :: "string list"
  stat_modifiers :: "string \<rightharpoonup> py_float"
  position :: int
  is_defeated :: bool

text \<open>The default of the \<open>stat_modifiers\<close> field.\<close>

definition default_stat_modifiers :: "string \<rightharpoonup> py_float" where
  "default_stat_modifiers =
     map_of [(''atk'', fl 1.0), (''def'', fl 1.0), (''sp_atk'', fl 1.0),
             (''sp_def'', fl 1.0), (''spd'', fl 1.0)]"

definition MOVE_TYPE_SCALING :: "string \<rightharpoonup> string option" where
  "MOVE_TYPE_SCALING =
     map_of [(''physical'', Some ''atk''), (''special'', Some ''sp_atk''), (''status'', None)]"

definition CRITICAL_HIT_RATE :: py_float where
  "CRITICAL_HIT_RATE = fl 0.05"

definition CRITICAL_HIT_MULTIPLIER :: py_float where
  "CRITICAL_HIT_MULTIPLIER = fl 1.5"

subsection \<open>calculate_damage\<close>

text \<open>
  The three draws of one call, in the order the code makes them: \<open>random.random()\<close> for
  the critical hit, \<open>random.uniform(0.85, 1.0)\<close> for the damage roll, \<open>random.random()\<close>
  for the accuracy check. A status move returns before any draw.
\<close>

record draws =
  crit_draw :: py_float
  damage_roll :: py_float
  hit_draw :: py_float

text \<open>\<open>getattr(stats, name)\<close> on the stat block.\<close>

definition getattr_stat :: "EchoStats \<Rightarrow> string \<Rightarrow> py_error + int" where
  "getattr_stat s a =
     (if a = ''hp'' then Inr (hp s)
      else if a = ''atk'' then Inr (atk s)
      else if a = ''def_'' then Inr (defense s)
      else if a = ''sp_atk'' then Inr (sp_atk s)
      else if a = ''sp_def'' then Inr (sp_def s)
      else if a = ''spd'' then Inr (spd s)
      else Inl AttributeError)"

text \<open>The \<open>.get\<close> defaults of the three keys \<open>calculate_damage\<close> reads first.\<close>

definition move_type_of :: "Move \<Rightarrow> string" where
  "move_type_of move = (case m_type move of None \<Rightarrow> ''physical'' | Some t \<Rightarrow> t)"

definition move_power_of :: "Move \<Rightarrow> int" where
  "move_power_of move = (case m_power move of None \<Rightarrow> 0 | Some p \<Rightarrow> p)"

definition accuracy_of :: "Move \<Rightarrow> int" where
  "accuracy_of move = (case m_accuracy move of None \<Rightarrow> 100 | Some a \<Rightarrow> a)"

text \<open>
  Lines 225 to 241, statement by statement: the stat lookup; \<open>atk_stat\<close> and \<open>def_stat\<close>
  with their modifiers, each product truncated by \<open>int\<close>; the level factor
  \<open>(2 * level / 5 + 2) / 250\<close>; the base damage
  \<open>level_factor * (atk_stat / max(1, def_stat)) * move_power + 2\<close>, a float. The table
  maps \<open>'status'\<close> to \<open>None\<close>; \<open>getattr\<close> with \<open>None\<close> for a name raises TypeError (the
  caller returns for a status move before it gets here).
\<close>

definition base_damage_value ::
  "Echo \<Rightarrow> Echo \<Rightarrow> Move \<Rightarrow> (string \<rightharpoonup> py_float) \<Rightarrow> (string \<rightharpoonup> py_float)
     \<Rightarrow> py_error + py_float" where
  "base_damage_value attacker defender move stat_modifiers_atk stat_modifiers_def =
     py_bind (lookup MOVE_TYPE_SCALING (move_type_of move)) (\<lambda>scaling.
     case scaling of
       None \<Rightarrow> Inl TypeError
     | Some stat_type \<Rightarrow>
     py_bind (getattr_stat (current_stats attacker) stat_type) (\<lambda>atk_stat0.
     let def_stat0 = (if stat_type = ''atk'' then defense (current_stats defender)
                      else sp_def (current_stats defender)) in
     py_bind (lookup stat_modifiers_atk stat_type) (\<lambda>ma.
     py_bind (int_times_float atk_stat0 ma) (\<lambda>atk_float.
     py_bind (py_int atk_float) (\<lambda>atk_stat.
     py_bind (lookup stat_modifiers_def
                (if stat_type = ''sp_atk'' then ''sp_def'' else ''def'')) (\<lambda>md.
     py_bind (int_times_float def_stat0 md) (\<lambda>def_float.
     py_bind (py_int def_float) (\<lambda>def_stat.
     py_bind (int_truediv (2 * level attacker) 5) (\<lambda>l1.
     py_bind (float_plus_int l1 2) (\<lambda>l2.
     py_bind (float_div_int l2 250) (\<lambda>level_factor.
     py_bind (int_truediv atk_stat (max 1 def_stat)) (\<lambda>ratio.
     py_bind (float_times_int (dmul level_factor ratio) (move_power_of move)) (\<lambda>b1.
     float_plus_int b1 2)))))))))))))"

definition stab_of :: "Move \<Rightarrow> Echo \<Rightarrow> py_float" where
  "stab_of move attacker = (if m_element move = Some (element attacker) then fl 1.5 else fl 1.0)"

definition critical_mult_of :: "bool \<Rightarrow> py_float" where
  "critical_mult_of is_critical = (if is_critical then CRITICAL_HIT_MULTIPLIER else fl 1.0)"

text \<open>
  Line 259: the product \<open>base_damage * type_effectiveness * stab * critical_mult *
  randomness\<close>, multiplied from the left.
\<close>

definition damage_product ::
  "py_float \<Rightarrow> py_float \<Rightarrow> py_float \<Rightarrow> py_float \<Rightarrow> py_float \<Rightarrow> py_float" where
  "damage_product base type_eff stab critical_mult randomness =
     dmul (dmul (dmul (dmul base type_eff) stab) critical_mult) randomness"

definition calculate_damage ::
  "Echo \<Rightarrow> Echo \<Rightarrow> Move \<Rightarrow> (string \<rightharpoonup> py_float) \<Rightarrow> (string \<rightharpoonup> py_float) \<Rightarrow> draws
     \<Rightarrow> py_error + DamageResult" where
  "calculate_damage attacker defender move stat_modifiers_atk stat_modifiers_def rnd =
     (if move_type_of move = ''status'' then
        py_bind (int_div_float (accuracy_of move) (fl 100.0)) (\<lambda>acc.
        Inr \<lparr>base_damage = 0, type_effectiveness = fl 1.0, critical_hit = False,
             final_damage = 0, move_accuracy = acc, hit = True\<rparr>)
      else
        py_bind (base_damage_value attacker defender move stat_modifiers_atk stat_modifiers_def)
          (\<lambda>base.
        let type_eff = effectiveness (element attacker) (element defender);
            stab = stab_of move attacker;
            is_critical = dlt (crit_draw rnd) CRITICAL_HIT_RATE;
            critical_mult = critical_mult_of is_critical;
            randomness = damage_roll rnd in
        py_bind (py_int (damage_product base type_eff stab critical_mult randomness))
          (\<lambda>final0.
        let final1 = max 1 final0 in
        py_bind (int_div_float (accuracy_of move) (fl 100.0)) (\<lambda>hit_chance.
        let is_hit = dlt (hit_draw rnd) hit_chance in
        py_bind (py_int base) (\<lambda>base_int.
        Inr \<lparr>base_damage = base_int, type_effectiveness = type_eff,
             critical_hit = is_critical,
             final_damage = (if is_hit then final1 else 0),
             move_accuracy = hit_chance, hit = is_hit\<rparr>)))))"

subsection \<open>Status effects\<close>

definition apply_status_effect :: "CombatantState \<Rightarrow> string \<Rightarrow> int \<Rightarrow> bool \<times> CombatantState" where
  "apply_status_effect target effect duration =
     (if effect \<in> set (status_effects target) then (False, target)
      else (True, target\<lparr>status_effects :=
                           status_effects target @ [effect @ '':'' @ str_int duration]\<rparr>))"

text \<open>
  The damage of a burn or poison tick, \<open>int(combatant.echo.base_stats.hp * 0.125)\<close>.
\<close>

definition tick_damage :: "CombatantState \<Rightarrow> py_error + int" where
  "tick_damage combatant =
     py_bind (int_times_float (hp (base_stats (echo combatant))) (fl 0.125)) py_int"

text \<open>The per-turn consequence of one entry (lines 343 to 348).\<close>

definition effect_penalty :: "string \<Rightarrow> CombatantState \<Rightarrow> py_error + CombatantState" where
  "effect_penalty effect_name combatant =
     (if effect_name = ''burn'' then
        py_bind (tick_damage combatant) (\<lambda>dmg.
        Inr (combatant\<lparr>current_hp := max 0 (current_hp combatant - dmg)\<rparr>))
      else if effect_name = ''poison'' then
        py_bind (tick_damage combatant) (\<lambda>dmg.
        Inr (combatant\<lparr>current_hp := max 0 (current_hp combatant - dmg)\<rparr>))
      else if effect_name = ''paralysis'' then
        py_bind (lookup (stat_modifiers combatant) ''spd'') (\<lambda>v.
        Inr (combatant\<lparr>stat_modifiers :=
                          (stat_modifiers combatant)(''spd'' \<mapsto> dmul v (fl 0.5))\<rparr>))
      else Inr combatant)"

text \<open>
  The loop of \<open>update_status_effects\<close> over the entries, with the combatant and the list
  \<open>active_effects\<close> built so far. An entry that does not split into exactly two pieces
  fails the unpacking (ValueError), as does a duration that \<open>int\<close> rejects.
\<close>

fun tick_loop ::
  "string list \<Rightarrow> CombatantState \<Rightarrow> string list \<Rightarrow> py_error + (CombatantState \<times> string list)" where
  "tick_loop [] combatant active_effects = Inr (combatant, active_effects)"
| "tick_loop (effect_str # rest) combatant active_effects =
     (case split_colon effect_str of
        [effect_name, duration_str] \<Rightarrow>
          (case int_of_str duration_str of
             Inl e \<Rightarrow> Inl e
           | Inr d \<Rightarrow>
             (let duration = d - 1 in
              case effect_penalty effect_name combatant of
                Inl e \<Rightarrow> Inl e
              | Inr combatant' \<Rightarrow>
                  tick_loop rest combatant'
                    (if duration > 0
                     then active_effects @ [effect_name @ '':'' @ str_int duration]
                     else active_effects)))
      | _ \<Rightarrow> Inl ValueError)"

definition update_status_effects :: "CombatantState \<Rightarrow> py_error + CombatantState" where
  "update_status_effects combatant =
     (case tick_loop (status_effects combatant) combatant [] of
        Inl e \<Rightarrow> Inl e
      | Inr (combatant', active_effects) \<Rightarrow>
          Inr (combatant'\<lparr>status_effects := active_effects\<rparr>))"

subsection \<open>modify_stat\<close>

definition stage_multipliers :: "int \<rightharpoonup> py_float" where
  "stage_multipliers = map_of [(-6, fl 0.25), (-5, fl 0.29), (-4, fl 0.33), (-3, fl 0.43),
     (-2, fl 0.50), (-1, fl 0.67), (0, fl 1.0), (1, fl 1.5), (2, fl 2.0), (3, fl 2.5),
     (4, fl 3.0), (5, fl 3.5), (6, fl 4.0)]"

definition modify_stat :: "CombatantState \<Rightarrow> string \<Rightarrow> int \<Rightarrow> py_error + CombatantState" where
  "modify_stat combatant stat stages0 =
     (let stages = max (-6) (min 6 stages0) in
      case lookup stage_multipliers stages of
        Inl e \<Rightarrow> Inl e
      | Inr m \<Rightarrow> Inr (combatant\<lparr>stat_modifiers := (stat_modifiers combatant)(stat \<mapsto> m)\<rparr>))"

subsection \<open>execute_move\<close>

text \<open>
  Only the defender is mutated. The result carries the returned triple
  \<open>(damage_dealt, damage_result, message)\<close> and the defender after the call. The truth
  value of \<open>move.get('effect')\<close> is that of a string: present and not empty.
\<close>

definition execute_move ::
  "CombatantState \<Rightarrow> CombatantState \<Rightarrow> Move \<Rightarrow> draws
     \<Rightarrow> py_error + (int \<times> DamageResult \<times> string \<times> CombatantState)" where
  "execute_move attacker defender move rnd =
     (let move_name = (case m_name move of None \<Rightarrow> ''Unknown Move'' | Some n \<Rightarrow> n) in
      case calculate_damage (echo attacker) (echo defender) move
             (stat_modifiers attacker) (stat_modifiers defender) rnd of
        Inl e \<Rightarrow> Inl e
      | Inr damage_result \<Rightarrow>
        (let message0 = name (echo attacker) @ '' used '' @ move_name @ ''!'' in
         if \<not> hit damage_result then
           Inr (0, damage_result, message0 @ '' But it missed!'', defender)
         else
           (let message1 = (if critical_hit damage_result then message0 @ '' Critical hit!''
                            else message0);
                damage_dealt = final_damage damage_result;
                defender1 = defender\<lparr>current_hp := max 0 (current_hp defender - damage_dealt)\<rparr>;
                defender2 = (if current_hp defender1 = 0
                             then defender1\<lparr>is_defeated := True\<rparr> else defender1);
                message2 = (if current_hp defender1 = 0
                            then message1 @ '' '' @ name (echo defender) @ '' has been defeated!''
                            else message1);
                message3 = (if dlt (fl 1.5) (type_effectiveness damage_result)
                              then message2 @ '' It's super effective!''
                            else if dlt (fl 1.0) (type_effectiveness damage_result)
                              then message2 @ '' It's effective.''
                            else if dlt (type_effectiveness damage_result) (fl 0.5)
                              then message2 @ '' It's not very effective...''
                            else message2)
            in case m_effect move of
                 None \<Rightarrow> Inr (damage_dealt, damage_result, message3, defender2)
               | Some eff \<Rightarrow>
                   (if eff = [] then Inr (damage_dealt, damage_result, message3, defender2)
                    else (case apply_status_effect defender2 eff 3 of
                            (applied, defender3) \<Rightarrow>
                              Inr (damage_dealt, damage_result,
                                   (if applied
                                    then message3 @ '' '' @ name (echo defender)
                                           @ '' is now '' @ eff @ ''!''
                                    else message3),
                                   defender3))))))"

subsection \<open>ai_choose_move\<close>

text \<open>
  The score of one pair (lines 488 to 495):
  \<open>(base_power * type_eff * accuracy) - (target_hp_ratio * 20)\<close>, with
  \<open>accuracy = move.get('accuracy', 100) / 100.0\<close> and
  \<open>target_hp_ratio = target.current_hp / max(1, target.echo.base_stats.hp)\<close>.
\<close>

definition move_score :: "CombatantState \<Rightarrow> Move \<Rightarrow> CombatantState \<Rightarrow> py_error + py_float" where
  "move_score attacker move target =
     (let type_eff = effectiveness (element (echo attacker)) (element (echo target));
          base_power = (case m_power move of None \<Rightarrow> 20 | Some p \<Rightarrow> p) in
      py_bind (int_div_float (accuracy_of move) (fl 100.0)) (\<lambda>accuracy.
      py_bind (int_truediv (current_hp target) (max 1 (hp (base_stats (echo target)))))
        (\<lambda>target_hp_ratio.
      py_bind (int_times_float base_power type_eff) (\<lambda>s1.
      py_bind (float_times_int target_hp_ratio 20) (\<lambda>s2.
      Inr (dsub (dmul s1 accuracy) s2))))))"

text \<open>
  The inner loop over the targets and the outer loop over the moves, on the triple
  \<open>(best_move, best_target, best_score)\<close>. The first \<open>best_score\<close> is the integer
  \<open>-999\<close>, which a float is compared with by value.
\<close>

fun target_loop ::
  "CombatantState \<Rightarrow> Move \<Rightarrow> CombatantState list
     \<Rightarrow> Move option \<times> CombatantState option \<times> py_float
     \<Rightarrow> py_error + (Move option \<times> CombatantState option \<times> py_float)" where
  "target_loop attacker move [] best = Inr best"
| "target_loop attacker move (target # rest) (best_move, best_target, best_score) =
     py_bind (move_score attacker move target) (\<lambda>score.
     target_loop attacker move rest
       (if dlt best_score score then (Some move, Some target, score)
        else (best_move, best_target, best_score)))"

fun move_loop ::
  "CombatantState \<Rightarrow> Move list \<Rightarrow> CombatantState list
     \<Rightarrow> Move option \<times> CombatantState option \<times> py_float
     \<Rightarrow> py_error + (Move option \<times> CombatantState option \<times> py_float)" where
  "move_loop attacker [] alive_targets best = Inr best"
| "move_loop attacker (move # rest) alive_targets best =
     py_bind (target_loop attacker move alive_targets best) (\<lambda>best'.
     move_loop attacker rest alive_targets best')"

text \<open>A dict is false when it is empty: here, when none of the keys is present.\<close>

definition move_truthy :: "Move \<Rightarrow> bool" where
  "move_truthy move =
     (m_name move \<noteq> None \<or> m_type move \<noteq> None \<or> m_power move \<noteq> None
      \<or> m_accuracy move \<noteq> None \<or> m_element move \<noteq> None \<or> m_effect move \<noteq> None)"

text \<open>
  The pair \<open>(a, b)\<close> of a return statement evaluates \<open>a\<close> first, then \<open>b\<close>; each may
  raise. In the failsafe branch the pair is \<open>attacker.echo.moves[0], alive_targets[0]\<close>.
\<close>

definition ai_choose_move ::
  "CombatantState \<Rightarrow> CombatantState list \<Rightarrow> py_error + (Move \<times> CombatantState)" where
  "ai_choose_move attacker defenders =
     (let alive_targets = filter (\<lambda>d. \<not> is_defeated d) defenders in
      if alive_targets = [] then
        (case first (moves (echo attacker)) of
           Inl e \<Rightarrow> Inl e
         | Inr m \<Rightarrow> (case first alive_targets of Inl e \<Rightarrow> Inl e | Inr t \<Rightarrow> Inr (m, t)))
      else
        (case move_loop attacker (moves (echo attacker)) alive_targets
                (None, None, Fin (- 999)) of
           Inl e \<Rightarrow> Inl e
         | Inr (best_move, best_target, best_score) \<Rightarrow>
             (case (case best_move of
                      None \<Rightarrow> first (moves (echo attacker))
                    | Some m \<Rightarrow> (if move_truthy m then Inr m
                                 else first (moves (echo attacker)))) of
                Inl e \<Rightarrow> Inl e
              | Inr m \<Rightarrow>
                  (case (case best_target of
                           None \<Rightarrow> first alive_targets
                         | Some t \<Rightarrow> Inr t) of
                     Inl e \<Rightarrow> Inl e
                   | Inr t \<Rightarrow> Inr (m, t)))))"

subsection \<open>is_battle_finished\<close>

definition is_battle_finished :: "CombatantState list \<Rightarrow> bool" where
  "is_battle_finished combatants =
     (let team_1_defeated = list_all is_defeated (take (length combatants div 2) combatants);
          team_2_defeated = list_all is_defeated (drop (length combatants div 2) combatants)
      in team_1_defeated \<or> team_2_defeated)"

subsection \<open>calculate_battle_rewards\<close>

record Rewards =
  experience :: int
  currency :: int
  bonus_multiplier :: py_float

text \<open>
  The multiplier of one loser, \<open>max(0.5, 1.0 + (level_diff * 0.1))\<close>, and the loop over
  the losers on the pair \<open>(total_exp, total_currency)\<close>.
\<close>

definition exp_mult_of :: "int \<Rightarrow> py_error + py_float" where
  "exp_mult_of level_diff =
     py_bind (int_times_float level_diff (fl 0.1)) (\<lambda>d.
     Inr (py_max (fl 0.5) (dadd (fl 1.0) d)))"

fun reward_loop ::
  "CombatantState \<Rightarrow> CombatantState list \<Rightarrow> int \<times> int \<Rightarrow> py_error + (int \<times> int)" where
  "reward_loop winner [] totals = Inr totals"
| "reward_loop winner (loser # rest) (total_exp, total_currency) =
     (let base_exp = 100;
          base_currency = 50;
          level_diff = level (echo loser) - level (echo winner) in
      py_bind (exp_mult_of level_diff) (\<lambda>exp_mult.
      py_bind (int_times_float (base_exp + level (echo loser) * 2) exp_mult) (\<lambda>e.
      py_bind (py_int e) (\<lambda>exp_gained.
      py_bind (int_times_float (base_currency + level (echo loser)) exp_mult) (\<lambda>c.
      py_bind (py_int c) (\<lambda>currency_gained.
      reward_loop winner rest
        (total_exp + exp_gained, total_currency + currency_gained)))))))"

definition calculate_battle_rewards ::
  "CombatantState \<Rightarrow> CombatantState list \<Rightarrow> py_error + Rewards" where
  "calculate_battle_rewards winner losers =
     py_bind (reward_loop winner losers (0, 0)) (\<lambda>(total_exp, total_currency).
     py_bind (int_times_float (int (length losers) - 1) (fl 0.1)) (\<lambda>b.
     Inr \<lparr>experience = total_exp, currency = total_currency,
          bonus_multiplier = dadd (fl 1.0) b\<rparr>))"

subsection \<open>Concrete combatants for the scenarios\<close>

text \<open>
  A neutral Echo with one physical move of power 80 and accuracy 100, and a fresh
  combatant built from it as the dataclass defaults build it. The draws \<open>sure_hit\<close> are no
  critical hit, the lowest damage roll (the float \<open>0.85\<close>), and a hit.
\<close>

definition plain_stats :: "int \<Rightarrow> EchoStats" where
  "plain_stats h = \<lparr>hp = h, atk = 100, defense = 50, sp_atk = 100, sp_def = 50, spd = 50\<rparr>"

definition tackle :: Move where
  "tackle = \<lparr>m_name = Some ''Tackle'', m_type = Some ''physical'', m_power = Some 80,
             m_accuracy = Some 100, m_element = None, m_effect = None\<rparr>"

definition plain_echo :: "string \<Rightarrow> int \<Rightarrow> int \<Rightarrow> Echo" where
  "plain_echo n lvl h = \<lparr>name = n, element = NEUTRAL, level = lvl, base_stats = plain_stats h,
                         current_stats = plain_stats h, moves = [tackle]\<rparr>"

definition new_combatant :: "string \<Rightarrow> int \<Rightarrow> int \<Rightarrow> CombatantState" where
  "new_combatant n lvl h = \<lparr>echo_id = n, echo = plain_echo n lvl h, current_hp = h,
     status_effects = [], stat_modifiers = default_stat_modifiers, position = 0,
     is_defeated = False\<rparr>"

definition sure_hit :: draws where
  "sure_hit = \<lparr>crit_draw = fl 0.5, damage_roll = fl 0.85, hit_draw = fl 0\<rparr>"

section \<open>Properties\<close>

lemmas scenario_defs = plain_stats_def tackle_def plain_echo_def new_combatant_def
  sure_hit_def default_stat_modifiers_def

lemmas fl_eval = fl_def expo_def round_even_def pow2_def bit_length.simps Let_def

lemmas mixed_defs = int_times_float_def float_times_int_def float_plus_int_def float_div_int_def
  int_div_float_def float_of_int_def int_truediv_def py_bind_def

subsection \<open>Floats at some points\<close>

text \<open>
  The literals of the tables that are doubles themselves, and two points where the
  rounding shows: \<open>100 * 0.29\<close> is just below 29, so \<open>int\<close> gives 28; and \<open>85 / 100.0\<close> is
  the float \<open>0.85\<close>, so a draw equal to it is not below it.
\<close>

lemma fl_exact:
  "fl 0 = Fin 0" "fl (1 / 8) = Fin (1 / 8)" "fl (1 / 4) = Fin (1 / 4)"
  "fl (1 / 2) = Fin (1 / 2)" "fl 1 = Fin 1" "fl (3 / 2) = Fin (3 / 2)" "fl 2 = Fin 2"
  "fl 4 = Fin 4" "fl 100 = Fin 100"
  by (simp_all add: fl_eval)

lemma fl_three: "fl 3 = Fin 3"
  by (simp add: fl_eval)

lemma int_of_product_below_29:
  "py_bind (int_times_float 100 (fl 0.29)) py_int = Inr 28"
  by (simp add: mixed_defs fl_eval)

lemma draw_at_accuracy_misses:
  "py_bind (int_div_float 85 (fl 100.0)) (\<lambda>hit_chance. Inr (dlt (fl 0.85) hit_chance))
     = Inr False"
  by (simp add: mixed_defs fl_eval)

subsection \<open>Type effectiveness\<close>

text \<open>
  C8. The type-effectiveness lookup is total over the element enumeration: every attacker
  element has a row in the matrix and every row has an entry for every defender element,
  so the \<open>.get\<close> defaults are never used. The value is always one of the floats 0.5, 1.0,
  2.0, and the table gives fire against wind 2.0 and wind against fire 0.5.
\<close>

theorem effectiveness_total:
  "(\<exists>row. TYPE_EFFECTIVENESS a = Some row \<and> row d = Some (effectiveness a d))
   \<and> effectiveness a d \<in> {Fin 0.5, Fin 1.0, Fin 2.0}
   \<and> effectiveness FIRE WIND = Fin 2.0 \<and> effectiveness WIND FIRE = Fin 0.5"
  by (cases a; cases d;
      simp add: TYPE_EFFECTIVENESS_def effectiveness_def get_default_def fl_exact)

subsection \<open>Rewards\<close>

lemma float_of_int_small:
  "float_of_int 0 = Inr (Fin 0)" "float_of_int (- 1) = Inr (Fin (- 1))"
  "float_of_int 70 = Inr (Fin 70)" "float_of_int 140 = Inr (Fin 140)"
  by (simp_all add: float_of_int_def fl_eval)

lemma exp_mult_of_zero: "exp_mult_of 0 = Inr (Fin 1)"
  apply (simp add: exp_mult_of_def int_times_float_def py_bind_def float_of_int_small py_max_def
      fl_exact)
  apply (simp add: fl_eval)
  done

lemma reward_products:
  "int_times_float 140 (Fin 1) = Inr (Fin 140)" "int_times_float 70 (Fin 1) = Inr (Fin 70)"
  apply (simp_all add: int_times_float_def py_bind_def float_of_int_small)
  apply (simp_all add: fl_eval)
  done

text \<open>
  C9. For a winner of level 20 and a single loser of level 20 the call returns, with
  experience 140, currency 70 and bonus multiplier 1.0: the level difference is 0, so the
  per-loser multiplier is \<open>max(0.5, 1.0 + 0 * 0.1) = 1.0\<close>, the experience is
  \<open>int((100 + 40) * 1.0)\<close> and the currency \<open>int((50 + 20) * 1.0)\<close>.
\<close>

theorem calculate_battle_rewards_level_20:
  assumes "level (echo winner) = 20" and "level (echo loser) = 20"
  shows "calculate_battle_rewards winner [loser]
           = Inr \<lparr>experience = 140, currency = 70, bonus_multiplier = Fin 1.0\<rparr>"
proof -
  have loop: "reward_loop winner [loser] (0, 0) = Inr (140, 70)"
    using assms by (simp add: py_bind_def exp_mult_of_zero reward_products)
  have bonus: "int_times_float 0 (fl (1 / 10)) = Inr (Fin 0)"
    apply (simp add: int_times_float_def py_bind_def float_of_int_small)
    apply (simp add: fl_eval)
    done
  show ?thesis
    unfolding calculate_battle_rewards_def loop
    by (simp add: py_bind_def bonus fl_exact)
qed

theorem calculate_battle_rewards_level_20_witness:
  "level (echo (new_combatant ''W'' 20 100)) = 20
   \<and> level (echo (new_combatant ''L'' 20 100)) = 20
   \<and> calculate_battle_rewards (new_combatant ''W'' 20 100) [new_combatant ''L'' 20 100]
       = Inr \<lparr>experience = 140, currency = 70, bonus_multiplier = Fin 1.0\<rparr>"
proof -
  have w: "level (echo (new_combatant ''W'' 20 100)) = 20"
    by (simp add: new_combatant_def plain_echo_def)
  have l: "level (echo (new_combatant ''L'' 20 100)) = 20"
    by (simp add: new_combatant_def plain_echo_def)
  from calculate_battle_rewards_level_20 [OF w l] w l show ?thesis
    by simp
qed

lemma minus_tenth:
  "int_times_float (- 1) (fl (1 / 10)) = Inr (Fin (- (3602879701896397 / 36028797018963968)))"
  apply (simp add: int_times_float_def py_bind_def float_of_int_small)
  apply (simp add: fl_eval)
  done

lemma one_minus_tenth:
  "dadd (Fin 1) (Fin (- (3602879701896397 / 36028797018963968))) = fl (9 / 10)"
  apply simp
  apply (simp add: fl_eval)
  done

lemma fl_nine_tenths: "fl (9 / 10) = Fin (8106479329266893 / 9007199254740992)"
  by (simp add: fl_eval)

text \<open>
  C10. With an empty list of losers the loop adds nothing, so experience and currency are
  0, and the bonus multiplier is \<open>1.0 + (0 - 1) * 0.1\<close>, which is the float \<open>0.9\<close>, below
  1.0.
\<close>

theorem calculate_battle_rewards_no_losers:
  "calculate_battle_rewards winner []
     = Inr \<lparr>experience = 0, currency = 0, bonus_multiplier = fl 0.9\<rparr>
   \<and> dlt (fl 0.9) (fl 1.0)"
  apply (simp add: calculate_battle_rewards_def py_bind_def minus_tenth fl_exact fl_nine_tenths)
  apply (simp add: fl_eval)
  done

subsection \<open>Evaluation lemmas for the scenarios\<close>

lemma str_int_digits:
  "str_int 1 = ''1''" "str_int 2 = ''2''" "str_int 3 = ''3''"
  by (simp_all add: str_int_def str_nat.simps digit_char_def)

lemma int_of_str_digits:
  "int_of_str ''1'' = Inr 1" "int_of_str ''2'' = Inr 2" "int_of_str ''3'' = Inr 3"
  by (simp_all add: int_of_str_def strip_def is_space_def digit_val_def)

lemma default_spd: "default_stat_modifiers ''spd'' = Some (Fin 1)"
  by (simp add: default_stat_modifiers_def fl_exact)

text \<open>
  The end-to-end scenario of the specification: level 50, attack 100 against defence 50,
  power 80, neutral elements, no STAB, no critical hit, and the lowest roll, the float
  0.85. The base damage is the float next to 16.08 and the product the float next to
  13.668.
\<close>

lemma base_damage_value_tackle:
  "base_damage_value (plain_echo ''C'' 50 100) (plain_echo ''A'' 50 1) tackle
     default_stat_modifiers default_stat_modifiers
   = Inr (Fin (1131529406376837 / 70368744177664))"
  apply (simp add: base_damage_value_def scenario_defs move_type_of_def move_power_of_def
      lookup_def MOVE_TYPE_SCALING_def getattr_stat_def mixed_defs)
  apply (simp add: fl_eval)
  done


lemma accuracy_tackle: "int_div_float (accuracy_of tackle) (fl 100) = Inr (Fin 1)"
  apply (simp add: accuracy_of_def tackle_def mixed_defs)
  apply (simp add: fl_eval)
  done

lemma hit_tackle: "dlt (hit_draw sure_hit) (Fin 1)"
  by (simp add: sure_hit_def fl_exact)

lemma no_crit_tackle: "\<not> dlt (crit_draw sure_hit) CRITICAL_HIT_RATE"
  apply (simp add: sure_hit_def CRITICAL_HIT_RATE_def)
  apply (simp add: fl_eval)
  done

lemma calculate_damage_tackle:
  "calculate_damage (plain_echo ''C'' 50 100) (plain_echo ''A'' 50 1) tackle
     default_stat_modifiers default_stat_modifiers sure_hit
   = Inr \<lparr>base_damage = 16, type_effectiveness = Fin 1, critical_hit = False,
          final_damage = 13, move_accuracy = Fin 1, hit = True\<rparr>"
proof -
  have nst: "move_type_of tackle \<noteq> ''status''"
    by (simp add: move_type_of_def tackle_def)
  show ?thesis
    apply (simp add: calculate_damage_def nst base_damage_value_tackle py_bind_def Let_def)
    apply (simp add: damage_product_def effectiveness_def get_default_def
        TYPE_EFFECTIVENESS_def stab_of_def critical_mult_of_def CRITICAL_HIT_RATE_def
        scenario_defs accuracy_of_def mixed_defs fl_eval)
    done
qed

lemma execute_move_defeats_A:
  "execute_move (new_combatant ''C'' 50 100) (new_combatant ''A'' 50 1) tackle sure_hit
   = Inr (13, \<lparr>base_damage = 16, type_effectiveness = Fin 1, critical_hit = False,
               final_damage = 13, move_accuracy = Fin 1, hit = True\<rparr>,
          ''C used Tackle! A has been defeated!'',
          (new_combatant ''A'' 50 1)\<lparr>current_hp := 0, is_defeated := True\<rparr>)"
  unfolding execute_move_def
  apply (simp add: new_combatant_def)
  apply (simp add: calculate_damage_tackle)
  apply (simp add: scenario_defs fl_exact)
  done


subsection \<open>The end of a battle\<close>

text \<open>
  C1, as stated, fails. C (hp 100) hits A (hp 1) with a damaging move: A's HP goes to 0
  and A is flagged defeated, B and C are not. On the list \<open>[A, B, C]\<close> the split index is
  \<open>3 // 2 = 1\<close>, the first part is \<open>[A]\<close> alone, and \<open>is_battle_finished\<close> returns true.
\<close>

theorem is_battle_finished_three_counterexample:
  "execute_move (new_combatant ''C'' 50 100) (new_combatant ''A'' 50 1) tackle sure_hit
   = Inr (13, \<lparr>base_damage = 16, type_effectiveness = Fin 1, critical_hit = False,
               final_damage = 13, move_accuracy = Fin 1, hit = True\<rparr>,
          ''C used Tackle! A has been defeated!'',
          (new_combatant ''A'' 50 1)\<lparr>current_hp := 0, is_defeated := True\<rparr>)
   \<and> \<not> is_defeated (new_combatant ''B'' 50 100)
   \<and> \<not> is_defeated (new_combatant ''C'' 50 100)
   \<and> is_battle_finished [(new_combatant ''A'' 50 1)\<lparr>current_hp := 0, is_defeated := True\<rparr>,
                          new_combatant ''B'' 50 100, new_combatant ''C'' 50 100] = True"
  by (simp add: execute_move_defeats_A) (simp add: is_battle_finished_def new_combatant_def)

text \<open>
  C1, amended. \<open>is_battle_finished\<close> splits the list at index \<open>len // 2\<close> and returns true
  when every combatant of the first part, or every combatant of the second part, is
  defeated. For two sides of the same size listed one after the other this is exactly
  "every combatant of one side is defeated". For three combatants \<open>[A, B, C]\<close> the first
  part is \<open>[A]\<close>: the function returns true as soon as A is defeated, and otherwise only
  when both B and C are.
\<close>

theorem is_battle_finished_halves:
  "is_battle_finished [a, b, c] = (is_defeated a \<or> (is_defeated b \<and> is_defeated c))
   \<and> (length team_1 = length team_2 \<longrightarrow>
        is_battle_finished (team_1 @ team_2)
          = (list_all is_defeated team_1 \<or> list_all is_defeated team_2))"
  by (simp add: is_battle_finished_def)

theorem is_battle_finished_halves_witness:
  "length [(new_combatant ''A'' 50 1)\<lparr>is_defeated := True\<rparr>, new_combatant ''B'' 50 100]
     = length [new_combatant ''C'' 50 100, new_combatant ''D'' 50 100]
   \<and> is_battle_finished ([(new_combatant ''A'' 50 1)\<lparr>is_defeated := True\<rparr>,
                            new_combatant ''B'' 50 100]
                           @ [new_combatant ''C'' 50 100, new_combatant ''D'' 50 100]) = False
   \<and> is_battle_finished [(new_combatant ''A'' 50 1)\<lparr>is_defeated := True\<rparr>,
                          new_combatant ''B'' 50 100, new_combatant ''C'' 50 100] = True"
  using is_battle_finished_halves
    [of "(new_combatant ''A'' 50 1)\<lparr>is_defeated := True\<rparr>" "new_combatant ''B'' 50 100"
        "new_combatant ''C'' 50 100"
        "[(new_combatant ''A'' 50 1)\<lparr>is_defeated := True\<rparr>, new_combatant ''B'' 50 100]"
        "[new_combatant ''C'' 50 100, new_combatant ''D'' 50 100]"]
  by (simp add: new_combatant_def)

subsection \<open>Applying a status effect\<close>

text \<open>
  The guard of \<open>apply_status_effect\<close> looks for the bare name among the stored strings,
  and what the function stores is \<open>name:duration\<close>, which is never the bare name. So an
  effect that this function has just applied is applied again by the next call.
\<close>

lemma apply_status_effect_reapplies:
  assumes "apply_status_effect target effect d1 = (True, target1)"
  shows "fst (apply_status_effect target1 effect d2) = True"
proof -
  from assms have fresh: "effect \<notin> set (status_effects target)"
    and t1: "status_effects target1 = status_effects target @ [effect @ '':'' @ str_int d1]"
    by (auto simp: apply_status_effect_def split: if_splits)
  have "length (effect @ '':'' @ str_int d1) \<noteq> length effect"
    by simp
  then have "effect @ '':'' @ str_int d1 \<noteq> effect"
    by metis
  with fresh t1 have "effect \<notin> set (status_effects target1)"
    by auto
  then show ?thesis
    by (simp add: apply_status_effect_def)
qed

text \<open>
  C2, where the code departs from the claim. On a fresh combatant \<open>apply_status_effect\<close>
  with \<open>burn\<close> and duration 3 returns true and stores \<open>burn:3\<close>. The same call on the
  result, where burn is active, returns true again (the claim says false) and the list
  becomes \<open>[burn:3, burn:3]\<close> (the claim says unchanged, each name at most once).
\<close>

theorem apply_status_effect_duplicate:
  "apply_status_effect (new_combatant ''A'' 50 100) ''burn'' 3
     = (True, (new_combatant ''A'' 50 100)\<lparr>status_effects := [''burn:3'']\<rparr>)
   \<and> apply_status_effect ((new_combatant ''A'' 50 100)\<lparr>status_effects := [''burn:3'']\<rparr>)
        ''burn'' 3
     = (True, (new_combatant ''A'' 50 100)\<lparr>status_effects := [''burn:3'', ''burn:3'']\<rparr>)"
  by (simp add: apply_status_effect_def new_combatant_def str_int_digits)

subsection \<open>Final damage\<close>




subsection \<open>Defeat by a status tick\<close>

text \<open>
  \<open>execute_move\<close> flags the defender as defeated when a connected move leaves it at 0 HP.
  \<open>update_status_effects\<close> never writes \<open>is_defeated\<close>: the flag after a tick is the flag
  before it.
\<close>

lemma execute_move_sets_defeated:
  "execute_move attacker defender move rnd = Inr (dealt, res, msg, defender') \<Longrightarrow> hit res
   \<Longrightarrow> current_hp defender' = 0 \<Longrightarrow> is_defeated defender'"
  by (auto simp: execute_move_def Let_def apply_status_effect_def
      split: sum.splits if_splits option.splits)

lemma effect_penalty_is_defeated:
  "effect_penalty n c = Inr c1 \<Longrightarrow> is_defeated c1 = is_defeated c"
  by (auto simp: effect_penalty_def py_bind_def split: sum.splits if_splits)

lemma tick_loop_is_defeated:
  "tick_loop es c act = Inr (c', act') \<Longrightarrow> is_defeated c' = is_defeated c"
proof (induction es arbitrary: c act)
  case Nil
  then show ?case by simp
next
  case (Cons e es)
  from Cons.prems obtain n ds c1 act1 where
    pen: "effect_penalty n c = Inr c1" and
    rest: "tick_loop es c1 act1 = Inr (c', act')"
    by (auto simp: Let_def split: list.splits sum.splits)
  from Cons.IH [OF rest] effect_penalty_is_defeated [OF pen] show ?case
    by simp
qed

lemma update_status_effects_is_defeated:
  "update_status_effects c = Inr c' \<Longrightarrow> is_defeated c' = is_defeated c"
  by (auto simp: update_status_effects_def split: sum.splits dest: tick_loop_is_defeated)

lemma tick_damage_40: "tick_damage (new_combatant ''A'' 50 40\<lparr>current_hp := 5,
    status_effects := [''burn:3'']\<rparr>) = Inr 5"
  apply (simp add: tick_damage_def scenario_defs mixed_defs)
  apply (simp add: fl_eval)
  done

text \<open>
  C4, where the code departs from the claim. A combatant with base HP 40, 5 HP left and
  an active \<open>burn:3\<close> is not defeated. The tick takes \<open>int(40 * 0.125) = 5\<close> HP: the
  current HP is 0 after it, and \<open>is_defeated\<close> is still false, where the claim says the
  tick sets it.
\<close>

theorem update_status_effects_burn_to_zero:
  "update_status_effects
     ((new_combatant ''A'' 50 40)\<lparr>current_hp := 5, status_effects := [''burn:3'']\<rparr>)
     = Inr ((new_combatant ''A'' 50 40)\<lparr>current_hp := 0, status_effects := [''burn:2'']\<rparr>)
   \<and> is_defeated ((new_combatant ''A'' 50 40)\<lparr>current_hp := 0,
                                                status_effects := [''burn:2'']\<rparr>) = False"
  apply (simp add: update_status_effects_def effect_penalty_def py_bind_def tick_damage_40
      str_int_digits int_of_str_digits)
  apply (simp add: new_combatant_def)
  done

subsection \<open>Stat stages\<close>

text \<open>Every clamped stage has an entry in the table, so the lookup never raises.\<close>

lemma stage_multipliers_clamped:
  "\<exists>m. stage_multipliers (max (- 6) (min 6 s)) = Some m"
proof -
  define k where "k = max (- 6) (min 6 s)"
  have "k = - 6 \<or> k = - 5 \<or> k = - 4 \<or> k = - 3 \<or> k = - 2 \<or> k = - 1 \<or> k = 0
        \<or> k = 1 \<or> k = 2 \<or> k = 3 \<or> k = 4 \<or> k = 5 \<or> k = 6"
  proof -
    have "- 6 \<le> k" "k \<le> 6" unfolding k_def by simp_all
    then show ?thesis by arith
  qed
  then have "k \<in> dom stage_multipliers"
    unfolding stage_multipliers_def dom_map_of_conv_image_fst by auto
  then show ?thesis unfolding k_def by (rule domD)
qed

text \<open>
  C5, as stated, fails on the accumulation. Two calls \<open>modify_stat(A, 'atk', 2)\<close> on a
  fresh combatant: the first sets the multiplier of \<open>atk\<close> to the stage-2 value 2.0, the
  second sets it to 2.0 again. The stage-4 value 3.0 of the claim is not reached.
\<close>

theorem modify_stat_twice_counterexample:
  "modify_stat (new_combatant ''A'' 50 100) ''atk'' 2
     = Inr ((new_combatant ''A'' 50 100)
              \<lparr>stat_modifiers := default_stat_modifiers(''atk'' \<mapsto> Fin 2.0)\<rparr>)
   \<and> modify_stat ((new_combatant ''A'' 50 100)
                     \<lparr>stat_modifiers := default_stat_modifiers(''atk'' \<mapsto> Fin 2.0)\<rparr>) ''atk'' 2
     = Inr ((new_combatant ''A'' 50 100)
              \<lparr>stat_modifiers := default_stat_modifiers(''atk'' \<mapsto> Fin 2.0)\<rparr>)
   \<and> stage_multipliers 4 = Some (Fin 3.0)
   \<and> stat_modifiers ((new_combatant ''A'' 50 100)
                        \<lparr>stat_modifiers := default_stat_modifiers(''atk'' \<mapsto> Fin 2.0)\<rparr>) ''atk''
       \<noteq> Some (Fin 3.0)"
  by (simp add: modify_stat_def lookup_def stage_multipliers_def new_combatant_def fl_exact
      fl_three)

text \<open>
  C5, amended. \<open>modify_stat(combatant, stat, stages)\<close> never raises. It clamps its
  argument \<open>stages\<close> to \<open>[-6, 6]\<close> and overwrites the multiplier of \<open>stat\<close> with the table
  value of the clamped argument (stage 0 gives 1.0, +6 and above 4.0, -6 and below 0.25);
  nothing else of the combatant changes. No stage is stored: the result does not depend
  on earlier calls for the same stat, so a call after another one gives what the second
  call alone gives.
\<close>

theorem modify_stat_overwrites:
  "(\<exists>m. stage_multipliers (max (- 6) (min 6 stages)) = Some m
        \<and> modify_stat combatant stat stages
            = Inr (combatant\<lparr>stat_modifiers := (stat_modifiers combatant)(stat \<mapsto> m)\<rparr>))
   \<and> stage_multipliers 0 = Some (Fin 1.0) \<and> stage_multipliers 6 = Some (Fin 4.0)
   \<and> stage_multipliers (- 6) = Some (Fin 0.25)
   \<and> (6 \<le> stages \<longrightarrow> modify_stat combatant stat stages
         = Inr (combatant\<lparr>stat_modifiers := (stat_modifiers combatant)(stat \<mapsto> Fin 4.0)\<rparr>))
   \<and> (stages \<le> - 6 \<longrightarrow> modify_stat combatant stat stages
         = Inr (combatant\<lparr>stat_modifiers := (stat_modifiers combatant)(stat \<mapsto> Fin 0.25)\<rparr>))
   \<and> (case modify_stat combatant stat stages of
         Inl e \<Rightarrow> Inl e
       | Inr combatant1 \<Rightarrow> modify_stat combatant1 stat stages2)
       = modify_stat combatant stat stages2"
proof -
  obtain m where m: "stage_multipliers (max (- 6) (min 6 stages)) = Some m"
    using stage_multipliers_clamped by blast
  obtain m2 where m2: "stage_multipliers (max (- 6) (min 6 stages2)) = Some m2"
    using stage_multipliers_clamped by blast
  have tab: "stage_multipliers 0 = Some (Fin 1.0)" "stage_multipliers 6 = Some (Fin 4.0)"
    "stage_multipliers (- 6) = Some (Fin 0.25)"
    by (simp_all add: stage_multipliers_def fl_exact)
  have hi: "6 \<le> stages \<Longrightarrow> max (- 6) (min 6 stages) = 6" by simp
  have lo: "stages \<le> - 6 \<Longrightarrow> max (- 6) (min 6 stages) = - 6" by simp
  show ?thesis
    using m m2 tab hi lo by (auto simp: modify_stat_def lookup_def Let_def)
qed

theorem modify_stat_overwrites_witness:
  "(6::int) \<le> 9 \<and> modify_stat (new_combatant ''A'' 50 100) ''atk'' 9
     = Inr ((new_combatant ''A'' 50 100)
              \<lparr>stat_modifiers := default_stat_modifiers(''atk'' \<mapsto> Fin 4.0)\<rparr>)
   \<and> (- 9::int) \<le> - 6 \<and> modify_stat (new_combatant ''A'' 50 100) ''atk'' (- 9)
     = Inr ((new_combatant ''A'' 50 100)
              \<lparr>stat_modifiers := default_stat_modifiers(''atk'' \<mapsto> Fin 0.25)\<rparr>)"
  using modify_stat_overwrites [of 9 "new_combatant ''A'' 50 100" "''atk''" 0]
    modify_stat_overwrites [of "- 9" "new_combatant ''A'' 50 100" "''atk''" 0]
  by (simp add: new_combatant_def)

subsection \<open>Paralysis\<close>

text \<open>
  C6, where the code departs from the claim. A fresh combatant (speed multiplier 1.0)
  with \<open>paralysis:3\<close>: the first tick stores 0.5 as its speed multiplier, the second
  tick stores 0.25. The claim says the stored multiplier stays at its value before the
  paralysis, and the comment in the code says "Reduce speed by 50%".
\<close>

theorem paralysis_two_ticks_compound:
  "stat_modifiers ((new_combatant ''A'' 50 100)\<lparr>status_effects := [''paralysis:3'']\<rparr>) ''spd''
     = Some (Fin 1.0)
   \<and> update_status_effects ((new_combatant ''A'' 50 100)\<lparr>status_effects := [''paralysis:3'']\<rparr>)
     = Inr ((new_combatant ''A'' 50 100)\<lparr>status_effects := [''paralysis:2''],
              stat_modifiers := default_stat_modifiers(''spd'' \<mapsto> Fin 0.5)\<rparr>)
   \<and> update_status_effects ((new_combatant ''A'' 50 100)\<lparr>status_effects := [''paralysis:2''],
              stat_modifiers := default_stat_modifiers(''spd'' \<mapsto> Fin 0.5)\<rparr>)
     = Inr ((new_combatant ''A'' 50 100)\<lparr>status_effects := [''paralysis:1''],
              stat_modifiers := default_stat_modifiers(''spd'' \<mapsto> Fin 0.25)\<rparr>)
   \<and> stat_modifiers ((new_combatant ''A'' 50 100)\<lparr>status_effects := [''paralysis:1''],
              stat_modifiers := default_stat_modifiers(''spd'' \<mapsto> Fin 0.25)\<rparr>) ''spd''
     \<noteq> Some (Fin 1.0)"
  by (simp add: update_status_effects_def effect_penalty_def py_bind_def lookup_def
      new_combatant_def str_int_digits int_of_str_digits default_spd fl_exact)

subsection \<open>The failsafe of the move selector\<close>

text \<open>
  When no candidate target is alive, the failsafe branch indexes the empty list
  \<open>alive_targets\<close>: the call raises IndexError for every attacker.
\<close>

lemma ai_choose_move_no_alive_target:
  "list_all is_defeated defenders \<Longrightarrow> ai_choose_move attacker defenders = Inl IndexError"
  by (simp add: ai_choose_move_def first_def list_all_iff filter_empty_conv split: list.splits)

text \<open>
  C7, where the code departs from the claim. The attacker has one move and the only
  candidate target is defeated. \<open>ai_choose_move\<close> raises IndexError, where the claim
  says it returns the attacker's first move paired with the first target.
\<close>

theorem ai_choose_move_all_defeated:
  "moves (echo (new_combatant ''C'' 50 100)) = [tackle]
   \<and> ai_choose_move (new_combatant ''C'' 50 100)
        [(new_combatant ''A'' 50 1)\<lparr>current_hp := 0, is_defeated := True\<rparr>] = Inl IndexError"
  by (simp add: ai_choose_move_def first_def new_combatant_def plain_echo_def)

end
